theory Spec2Isabelle
  imports Complex_Main
begin

section \<open>ECEF to SEZ: a shallow embedding of \<^verbatim>\<open>ecef_to_sez.py\<close>\<close>

text \<open>
  The script has two helper functions, \<^verbatim>\<open>ecef_to_lat_lon\<close> and \<^verbatim>\<open>ecef_to_sez\<close>, and a
  \<^verbatim>\<open>main\<close> that reads six command-line arguments, converts them with \<^verbatim>\<open>float\<close>, calls
  the transform and prints the three components.

  How a Python \<^verbatim>\<open>float\<close> is read here. A finite float is modelled by the real number it
  denotes, and \<^verbatim>\<open>+\<close>, \<^verbatim>\<open>-\<close>, \<^verbatim>\<open>*\<close>, \<^verbatim>\<open>math.sin\<close>, \<^verbatim>\<open>math.cos\<close>, \<^verbatim>\<open>math.sqrt\<close>,
  \<^verbatim>\<open>math.atan2\<close> by the exact operations on the reals. What is kept of binary64 is what
  decides whether a call returns at all: the interpreter raises \<^verbatim>\<open>OverflowError\<close> when the
  result of \<^verbatim>\<open>x ** 2\<close> is larger than the largest finite float, \<^verbatim>\<open>math.sqrt\<close> raises
  \<^verbatim>\<open>ValueError\<close> on a negative argument, and \<^verbatim>\<open>float(s)\<close> raises \<^verbatim>\<open>ValueError\<close> on a
  string that is not a literal. Rounding, the sign of a zero, infinities and NaN are not
  part of the model. The results below are therefore of two kinds, and each says which it
  is: those that follow the shape of the computation or rest on \<open>x - x = 0\<close> and
  \<open>0 * y = 0\<close> alone, which binary64 satisfies as well, and those that are identities of
  exact real arithmetic, which the rounded computation meets only approximately.
\<close>

subsection \<open>Exceptions and the library calls\<close>

datatype exc = ValueError | OverflowError

text \<open>The largest finite binary64 value, \<^verbatim>\<open>sys.float_info.max\<close>.\<close>

definition float_max :: real where
  "float_max = 2 ^ 1024 - 2 ^ 971"

text \<open>
  \<^verbatim>\<open>x ** n\<close> on a float and a non-negative integer exponent: CPython's \<^verbatim>\<open>float_pow\<close>
  raises \<^verbatim>\<open>OverflowError\<close> ("Numerical result out of range") when the power does not fit
  a finite float.
\<close>

definition float_pow :: "real \<Rightarrow> nat \<Rightarrow> exc + real" where
  "float_pow x n = (if float_max < \<bar>x ^ n\<bar> then Inl OverflowError else Inr (x ^ n))"

text \<open>\<^verbatim>\<open>math.sqrt\<close>: a negative argument is a \<^verbatim>\<open>ValueError\<close> ("math domain error").\<close>

definition math_sqrt :: "real \<Rightarrow> exc + real" where
  "math_sqrt x = (if x < 0 then Inl ValueError else Inr (sqrt x))"

text \<open>
  \<^verbatim>\<open>math.atan2(y, x)\<close>: the angle of the point \<open>(x, y)\<close> in \<open>(-\<pi>, \<pi>]\<close>, with the value
  \<open>0\<close> at the origin.
\<close>

definition atan2 :: "real \<Rightarrow> real \<Rightarrow> real" where
  "atan2 y x =
     (if 0 < x then arctan (y / x)
      else if x < 0 then (if 0 \<le> y then arctan (y / x) + pi else arctan (y / x) - pi)
      else if 0 < y then pi / 2
      else if y < 0 then - (pi / 2)
      else 0)"

text \<open>\<^verbatim>\<open>math.degrees\<close> and \<^verbatim>\<open>math.radians\<close> multiply by \<open>180/\<pi>\<close> and by \<open>\<pi>/180\<close>.\<close>

definition degrees :: "real \<Rightarrow> real" where
  "degrees x = x * (180 / pi)"

definition radians :: "real \<Rightarrow> real" where
  "radians x = x * (pi / 180)"

subsection \<open>The two helper functions\<close>

text \<open>
  \<^verbatim>\<open>ecef_to_lat_lon\<close>, statement by statement. The two squares are evaluated left to
  right; either may raise, and then nothing is returned.
\<close>

definition ecef_to_lat_lon :: "real \<Rightarrow> real \<Rightarrow> real \<Rightarrow> exc + real \<times> real" where
  "ecef_to_lat_lon o_x_km o_y_km o_z_km =
     (let lon_rad = atan2 o_y_km o_x_km in
      case float_pow o_x_km 2 of Inl err \<Rightarrow> Inl err | Inr xx \<Rightarrow>
      case float_pow o_y_km 2 of Inl err \<Rightarrow> Inl err | Inr yy \<Rightarrow>
      case math_sqrt (xx + yy) of Inl err \<Rightarrow> Inl err | Inr hyp \<Rightarrow>
        (let lat_rad = atan2 o_z_km hyp;
             lat_deg = degrees lat_rad;
             lon_deg = degrees lon_rad
         in Inr (lat_deg, lon_deg)))"

text \<open>
  \<^verbatim>\<open>ecef_to_sez\<close>. As in the source, the name \<open>z_km\<close> is bound a second time to the
  zenith component, after \<open>dz\<close> has been computed from the parameter. Python's unary minus
  binds tighter than \<^verbatim>\<open>*\<close>, as it does here.
\<close>

definition ecef_to_sez ::
  "real \<Rightarrow> real \<Rightarrow> real \<Rightarrow> real \<Rightarrow> real \<Rightarrow> real \<Rightarrow> exc + real \<times> real \<times> real" where
  "ecef_to_sez o_x_km o_y_km o_z_km x_km y_km z_km =
     (case ecef_to_lat_lon o_x_km o_y_km o_z_km of
        Inl err \<Rightarrow> Inl err
      | Inr (lat_deg, lon_deg) \<Rightarrow>
          (let lat_rad = radians lat_deg;
               lon_rad = radians lon_deg;
               dx = x_km - o_x_km;
               dy = y_km - o_y_km;
               dz = z_km - o_z_km;
               sin_lat = sin lat_rad;
               cos_lat = cos lat_rad;
               sin_lon = sin lon_rad;
               cos_lon = cos lon_rad;
               s_km = - sin_lat * cos_lon * dx - sin_lat * sin_lon * dy + cos_lat * dz;
               e_km = - sin_lon * dx + cos_lon * dy;
               z_km = cos_lat * cos_lon * dx + cos_lat * sin_lon * dy + sin_lat * dz
           in Inr (s_km, e_km, z_km)))"

subsection \<open>The command line\<close>

text \<open>
  A run of the script ends with what it wrote to standard output and how the process
  ended: by \<^verbatim>\<open>sys.exit(n)\<close> or by reaching the end of the script (exit code 0), or by an
  exception nobody caught (the interpreter prints a traceback to standard error and the
  exit code is 1). \<^verbatim>\<open>print\<close> of a string is a \<open>Text\<close> line, \<^verbatim>\<open>print\<close> of a float a
  \<open>Num\<close> line.
\<close>

datatype 'f line = Text string | Num 'f

datatype status = Exited nat | Uncaught exc

record 'f run =
  stdout :: "'f line list"
  status :: status

fun exit_code :: "status \<Rightarrow> nat" where
  "exit_code (Exited n) = n"
| "exit_code (Uncaught err) = 1"

definition usage :: string where
  "usage = ''Usage: python3 ecef_to_sez.py o_x_km o_y_km o_z_km x_km y_km z_km''"

text \<open>
  \<^verbatim>\<open>main\<close>, with the two things it calls as parameters: \<open>pyfloat\<close> stands for the builtin
  \<^verbatim>\<open>float\<close> on a string (\<open>None\<close> where it raises \<^verbatim>\<open>ValueError\<close>), and \<open>transform\<close> for
  the call of line 110. A statement that holds for every \<open>transform\<close> says that the
  call is not reached. \<open>argv\<close> is \<^verbatim>\<open>sys.argv\<close>: the script's name, then the arguments.
\<close>

definition main_with ::
  "(string \<Rightarrow> 'f option) \<Rightarrow> ('f \<Rightarrow> 'f \<Rightarrow> 'f \<Rightarrow> 'f \<Rightarrow> 'f \<Rightarrow> 'f \<Rightarrow> exc + 'f \<times> 'f \<times> 'f) \<Rightarrow>
   string list \<Rightarrow> 'f run" where
  "main_with pyfloat transform argv =
     (if length argv \<noteq> 7 then \<lparr>stdout = [Text usage], status = Exited 1\<rparr>
      else
        case pyfloat (argv ! 1) of None \<Rightarrow> \<lparr>stdout = [], status = Uncaught ValueError\<rparr> | Some o_x_km \<Rightarrow>
        case pyfloat (argv ! 2) of None \<Rightarrow> \<lparr>stdout = [], status = Uncaught ValueError\<rparr> | Some o_y_km \<Rightarrow>
        case pyfloat (argv ! 3) of None \<Rightarrow> \<lparr>stdout = [], status = Uncaught ValueError\<rparr> | Some o_z_km \<Rightarrow>
        case pyfloat (argv ! 4) of None \<Rightarrow> \<lparr>stdout = [], status = Uncaught ValueError\<rparr> | Some x_km \<Rightarrow>
        case pyfloat (argv ! 5) of None \<Rightarrow> \<lparr>stdout = [], status = Uncaught ValueError\<rparr> | Some y_km \<Rightarrow>
        case pyfloat (argv ! 6) of None \<Rightarrow> \<lparr>stdout = [], status = Uncaught ValueError\<rparr> | Some z_km \<Rightarrow>
        case transform o_x_km o_y_km o_z_km x_km y_km z_km of
          Inl err \<Rightarrow> \<lparr>stdout = [], status = Uncaught err\<rparr>
        | Inr (s_km, e_km, z_km) \<Rightarrow>
            \<lparr>stdout = [Num s_km, Num e_km, Num z_km], status = Exited 0\<rparr>)"

definition main :: "(string \<Rightarrow> real option) \<Rightarrow> string list \<Rightarrow> real run" where
  "main pyfloat argv = main_with pyfloat ecef_to_sez argv"

subsection \<open>The fused variant of the design notes\<close>

text \<open>
  The specification's design notes describe a variant that is not in the source: the
  observer's angles are taken in radians as \<^verbatim>\<open>atan2\<close> returns them, without the
  conversion to degrees and back. It is written here from those words, next to
  \<open>ecef_to_sez\<close>, to compare the two in exact arithmetic.
\<close>

definition ecef_to_sez_fused ::
  "real \<Rightarrow> real \<Rightarrow> real \<Rightarrow> real \<Rightarrow> real \<Rightarrow> real \<Rightarrow> exc + real \<times> real \<times> real" where
  "ecef_to_sez_fused o_x_km o_y_km o_z_km x_km y_km z_km =
     (let lon_rad = atan2 o_y_km o_x_km in
      case float_pow o_x_km 2 of Inl err \<Rightarrow> Inl err | Inr xx \<Rightarrow>
      case float_pow o_y_km 2 of Inl err \<Rightarrow> Inl err | Inr yy \<Rightarrow>
      case math_sqrt (xx + yy) of Inl err \<Rightarrow> Inl err | Inr hyp \<Rightarrow>
        (let lat_rad = atan2 o_z_km hyp;
             dx = x_km - o_x_km;
             dy = y_km - o_y_km;
             dz = z_km - o_z_km;
             sin_lat = sin lat_rad;
             cos_lat = cos lat_rad;
             sin_lon = sin lon_rad;
             cos_lon = cos lon_rad
         in Inr (- sin_lat * cos_lon * dx - sin_lat * sin_lon * dy + cos_lat * dz,
                 - sin_lon * dx + cos_lon * dy,
                 cos_lat * cos_lon * dx + cos_lat * sin_lon * dy + sin_lat * dz)))"

section \<open>When the helper functions return\<close>

lemma float_pow2_in_range: "x\<^sup>2 \<le> float_max \<Longrightarrow> float_pow x 2 = Inr (x\<^sup>2)"
  by (simp add: float_pow_def)

lemma float_pow2_overflow: "float_max < x\<^sup>2 \<Longrightarrow> float_pow x 2 = Inl OverflowError"
  by (simp add: float_pow_def)

text \<open>The argument of \<^verbatim>\<open>math.sqrt\<close> is a sum of two squares: its error branch is dead.\<close>

lemma math_sqrt_sum_squares: "math_sqrt (x\<^sup>2 + y\<^sup>2) = Inr (sqrt (x\<^sup>2 + y\<^sup>2))"
  by (simp add: math_sqrt_def not_less)


text \<open>
  Where the square overflows. The largest float below \<open>2\<^sup>5\<^sup>1\<^sup>2\<close> is \<open>2\<^sup>5\<^sup>1\<^sup>2 - 2\<^sup>4\<^sup>5\<^sup>9\<close>, so
  for a float \<open>x\<close> the two lemmas say that \<^verbatim>\<open>x ** 2\<close> raises exactly when
  \<open>|x| \<ge> 2\<^sup>5\<^sup>1\<^sup>2\<close>, about \<open>1.34e154\<close>.
\<close>

lemma square_fits:
  fixes x :: real
  assumes "\<bar>x\<bar> \<le> 2 ^ 512 - 2 ^ 459"
  shows "x\<^sup>2 \<le> float_max"
proof -
  have "x\<^sup>2 = \<bar>x\<bar>\<^sup>2" by simp
  also have "\<dots> \<le> (2 ^ 512 - 2 ^ 459)\<^sup>2"
    using assms by (intro power_mono) simp_all
  also have "\<dots> \<le> float_max"
    by (simp add: float_max_def)
  finally show ?thesis .
qed

lemma square_overflows:
  fixes x :: real
  assumes "2 ^ 512 \<le> \<bar>x\<bar>"
  shows "float_max < x\<^sup>2"
proof -
  have "float_max < (2 ^ 512)\<^sup>2"
    by (simp add: float_max_def)
  also have "\<dots> \<le> \<bar>x\<bar>\<^sup>2"
    using assms by (intro power_mono) simp_all
  finally show ?thesis by simp
qed

lemma ecef_to_lat_lon_returns:
  assumes "o_x_km\<^sup>2 \<le> float_max" and "o_y_km\<^sup>2 \<le> float_max"
  shows "ecef_to_lat_lon o_x_km o_y_km o_z_km =
    Inr (degrees (atan2 o_z_km (sqrt (o_x_km\<^sup>2 + o_y_km\<^sup>2))), degrees (atan2 o_y_km o_x_km))"
  using assms
  by (simp add: ecef_to_lat_lon_def float_pow2_in_range math_sqrt_sum_squares)

lemma ecef_to_lat_lon_raises:
  assumes "\<not> (o_x_km\<^sup>2 \<le> float_max \<and> o_y_km\<^sup>2 \<le> float_max)"
  shows "ecef_to_lat_lon o_x_km o_y_km o_z_km = Inl OverflowError"
proof (cases "o_x_km\<^sup>2 \<le> float_max")
  case True
  with assms have "float_max < o_y_km\<^sup>2" by simp
  with True show ?thesis
    by (simp add: ecef_to_lat_lon_def float_pow2_in_range float_pow2_overflow)
next
  case False
  then show ?thesis
    by (simp add: ecef_to_lat_lon_def float_pow2_overflow not_le)
qed

lemma ecef_to_sez_raises:
  assumes "\<not> (o_x_km\<^sup>2 \<le> float_max \<and> o_y_km\<^sup>2 \<le> float_max)"
  shows "ecef_to_sez o_x_km o_y_km o_z_km x_km y_km z_km = Inl OverflowError"
  using ecef_to_lat_lon_raises [OF assms] by (simp add: ecef_to_sez_def)

section \<open>The observer's angles\<close>




section \<open>The rotation\<close>




text \<open>
  C3, as the code has it. A target equal to the observer is mapped to \<open>(0, 0, 0)\<close>
  exactly when neither square of the observer's \<open>x\<close> and \<open>y\<close> overflows; when one does,
  the call raises \<^verbatim>\<open>OverflowError\<close>. The proof uses \<open>x - x = 0\<close> and \<open>0 * y = 0\<close> only,
  which hold for finite floats (up to the sign of the zero).
\<close>

theorem zero_offset:
  "ecef_to_sez o_x_km o_y_km o_z_km o_x_km o_y_km o_z_km =
     (if o_x_km\<^sup>2 \<le> float_max \<and> o_y_km\<^sup>2 \<le> float_max then Inr (0, 0, 0)
      else Inl OverflowError)"
proof (cases "o_x_km\<^sup>2 \<le> float_max \<and> o_y_km\<^sup>2 \<le> float_max")
  case True
  then show ?thesis
    by (simp add: ecef_to_sez_def ecef_to_lat_lon_returns)
next
  case False
  show ?thesis
    unfolding if_not_P [OF False] by (rule ecef_to_sez_raises [OF False])
qed

theorem zero_offset_witness:
  "ecef_to_sez 6378 (- 2) 3 6378 (- 2) 3 = Inr (0, 0, 0)"
  using zero_offset [of 6378 "- 2" 3]
  by (simp add: float_max_def)

theorem zero_offset_overflow:
  "ecef_to_sez 0 (2 ^ 600) 0 0 (2 ^ 600) 0 = Inl OverflowError"
  by (simp add: ecef_to_sez_def ecef_to_lat_lon_def float_pow_def float_max_def)

text \<open>
  C10. The east component does not depend on the \<open>z\<close> coordinates: two calls with the
  same observer \<open>x\<close> and \<open>y\<close> and the same differences \<open>x - ox\<close> and \<open>y - oy\<close> end the
  same way, either with the same east component or with the same exception, whatever
  the observer's and the target's \<open>z\<close> are. The statement follows the shape of the
  computation.
\<close>

theorem east_ignores_z:
  assumes "x_km' - o_x_km = x_km - o_x_km" and "y_km' - o_y_km = y_km - o_y_km"
  shows "map_sum id (\<lambda>(s_km, e_km, z_km). e_km)
           (ecef_to_sez o_x_km o_y_km o_z_km' x_km' y_km' z_km') =
         map_sum id (\<lambda>(s_km, e_km, z_km). e_km)
           (ecef_to_sez o_x_km o_y_km o_z_km x_km y_km z_km)"
proof (cases "o_x_km\<^sup>2 \<le> float_max \<and> o_y_km\<^sup>2 \<le> float_max")
  case True
  then show ?thesis
    using assms by (simp add: ecef_to_sez_def ecef_to_lat_lon_returns Let_def)
next
  case False
  then show ?thesis
    by (simp add: ecef_to_sez_raises)
qed

theorem east_ignores_z_witness:
  "(3::real) - 1 = 3 - 1 \<and> (5::real) - 0 = 5 - 0 \<and>
   map_sum id (\<lambda>(s_km, e_km, z_km). e_km) (ecef_to_sez 1 0 7 3 5 (- 4)) = Inr 5 \<and>
   map_sum id (\<lambda>(s_km, e_km, z_km). e_km) (ecef_to_sez 1 0 0 3 5 2) = Inr (5::real)"
proof -
  have "ecef_to_lat_lon 1 0 0 = Inr (0, 0)"
    using ecef_to_lat_lon_returns [of 1 0 0]
    by (simp add: float_max_def atan2_def degrees_def)
  then have "map_sum id (\<lambda>(s_km, e_km, z_km). e_km) (ecef_to_sez 1 0 0 3 5 2) = Inr (5::real)"
    by (simp add: ecef_to_sez_def radians_def)
  then show ?thesis
    using east_ignores_z [of 3 1 3 5 0 5 7 "- 4" 0 2] by simp
qed

section \<open>The command line: arity and literals\<close>

text \<open>
  C6. An invocation whose number of positional arguments is not 6 prints the usage
  message to standard output and exits with code 1, whatever \<^verbatim>\<open>float\<close> and the
  transform would do: neither is called.
\<close>

theorem main_wrong_arity:
  "length args \<noteq> 6 \<Longrightarrow>
   main_with pyfloat transform (prog # args) = \<lparr>stdout = [Text usage], status = Exited 1\<rparr>"
  by (simp add: main_with_def)

theorem main_wrong_arity_witness:
  "length [''6378'', ''0''] \<noteq> 6 \<and>
   main_with (\<lambda>s. None :: real option) ecef_to_sez (''ecef_to_sez.py'' # [''6378'', ''0''])
     = \<lparr>stdout = [Text usage], status = Exited 1\<rparr>"
  using main_wrong_arity [of "[''6378'', ''0'']" "\<lambda>s. None :: real option" ecef_to_sez "''ecef_to_sez.py''"]
  by simp

text \<open>
  C7. With exactly six arguments of which one is not a literal \<^verbatim>\<open>float\<close> accepts, the
  run ends with the \<^verbatim>\<open>ValueError\<close> of the conversion, uncaught: nothing is printed to
  standard output, the exit code is not zero, and the outcome is the same for every
  transform, which is therefore not called.
\<close>

theorem main_bad_literal:
  assumes "length argv = 7" and "i \<in> {1..6}" and "pyfloat (argv ! i) = None"
  shows "main_with pyfloat transform argv = \<lparr>stdout = [], status = Uncaught ValueError\<rparr>
     \<and> exit_code (status (main_with pyfloat transform argv)) \<noteq> 0"
proof -
  from assms(2) have "i = 1 \<or> i = 2 \<or> i = 3 \<or> i = 4 \<or> i = 5 \<or> i = 6"
    by auto
  with assms(1,3)
  have "main_with pyfloat transform argv = \<lparr>stdout = [], status = Uncaught ValueError\<rparr>"
    by (auto simp add: main_with_def split: option.splits)
  then show ?thesis by simp
qed

theorem main_bad_literal_witness:
  "length [''ecef_to_sez.py'', ''6378'', ''0'', ''abc'', ''6378'', ''0'', ''1''] = 7 \<and>
   (3::nat) \<in> {1..6} \<and>
   (\<lambda>s. if s = ''6378'' then Some 6378 else if s = ''0'' then Some 0
         else if s = ''1'' then Some (1::real) else None)
     ([''ecef_to_sez.py'', ''6378'', ''0'', ''abc'', ''6378'', ''0'', ''1''] ! 3) = None \<and>
   main_with
     (\<lambda>s. if s = ''6378'' then Some 6378 else if s = ''0'' then Some 0
         else if s = ''1'' then Some (1::real) else None)
     ecef_to_sez [''ecef_to_sez.py'', ''6378'', ''0'', ''abc'', ''6378'', ''0'', ''1'']
     = \<lparr>stdout = [], status = Uncaught ValueError\<rparr>"
  using main_bad_literal [of "[''ecef_to_sez.py'', ''6378'', ''0'', ''abc'', ''6378'', ''0'', ''1'']" 3
      "\<lambda>s. if s = ''6378'' then Some 6378 else if s = ''0'' then Some 0
         else if s = ''1'' then Some (1::real) else None" ecef_to_sez]
  by simp

text \<open>
  C4. On the observer \<open>(6378, 0, 0)\<close> and the target \<open>(6378, 0, 1)\<close>, that is on any
  command line of six arguments that \<^verbatim>\<open>float\<close> reads as these values, the script prints
  three lines, the values \<open>1\<close>, \<open>0\<close> and \<open>0\<close> in the order south, east, zenith, and
  ends with exit code 0. Every value on the way is computed without rounding (the angles
  are \<open>0\<close>, their sine \<open>0\<close> and cosine \<open>1\<close>).
\<close>

theorem main_equatorial:
  assumes "argv = [prog, a1, a2, a3, a4, a5, a6]"
    and "pyfloat a1 = Some 6378" and "pyfloat a2 = Some 0" and "pyfloat a3 = Some 0"
    and "pyfloat a4 = Some 6378" and "pyfloat a5 = Some 0" and "pyfloat a6 = Some 1"
  shows "main pyfloat argv = \<lparr>stdout = [Num 1, Num 0, Num 0], status = Exited 0\<rparr>"
proof -
  have "(6378::real)\<^sup>2 \<le> float_max" and "(0::real)\<^sup>2 \<le> float_max"
    by (simp_all add: float_max_def)
  then have "ecef_to_lat_lon 6378 0 0 = Inr (0, 0)"
    by (simp add: ecef_to_lat_lon_returns atan2_def degrees_def)
  then have "ecef_to_sez 6378 0 0 6378 0 1 = Inr (1, 0, 0)"
    by (simp add: ecef_to_sez_def radians_def)
  then show ?thesis using assms by (simp add: main_def main_with_def)
qed

theorem main_equatorial_witness:
  "main (\<lambda>s. if s = ''6378'' then Some 6378 else if s = ''0'' then Some 0
         else if s = ''1'' then Some 1 else None)
     [''ecef_to_sez.py'', ''6378'', ''0'', ''0'', ''6378'', ''0'', ''1'']
     = \<lparr>stdout = [Num 1, Num 0, Num 0], status = Exited 0\<rparr>"
  using main_equatorial [of "[''ecef_to_sez.py'', ''6378'', ''0'', ''0'', ''6378'', ''0'', ''1'']"
     "''ecef_to_sez.py''" "''6378''" "''0''" "''0''" "''6378''" "''0''" "''1''"
      "\<lambda>s. if s = ''6378'' then Some 6378 else if s = ''0'' then Some 0
         else if s = ''1'' then Some 1 else None"]
  by simp

section \<open>Identities of exact arithmetic\<close>

text \<open>
  From here on the results are identities of the real numbers: \<open>sin\<^sup>2 + cos\<^sup>2 = 1\<close>, the
  sine and cosine of \<^verbatim>\<open>atan2\<close>, and the conversion to degrees and back being the identity.
  The script's binary64 values meet them up to rounding only.
\<close>

lemma radians_degrees: "radians (degrees a) = a"
  by (simp add: radians_def degrees_def)

lemma ecef_to_sez_exact:
  assumes "o_x_km\<^sup>2 \<le> float_max" and "o_y_km\<^sup>2 \<le> float_max"
  shows "ecef_to_sez o_x_km o_y_km o_z_km x_km y_km z_km =
    (let phi = atan2 o_z_km (sqrt (o_x_km\<^sup>2 + o_y_km\<^sup>2));
         lam = atan2 o_y_km o_x_km;
         dx = x_km - o_x_km;
         dy = y_km - o_y_km;
         dz = z_km - o_z_km
     in Inr (- sin phi * cos lam * dx - sin phi * sin lam * dy + cos phi * dz,
             - sin lam * dx + cos lam * dy,
             cos phi * cos lam * dx + cos phi * sin lam * dy + sin phi * dz))"
  using assms by (simp add: ecef_to_sez_def ecef_to_lat_lon_returns radians_degrees Let_def)

text \<open>
  The fused variant and \<open>ecef_to_sez\<close> agree on every input, the overflow included.
  This is where the real-number reading is used most: on floats
  \<^verbatim>\<open>math.radians(math.degrees(a))\<close> and \<open>a\<close> differ in the last place for some angles.
\<close>

lemma ecef_to_sez_fused_exact:
  "ecef_to_sez_fused o_x_km o_y_km o_z_km x_km y_km z_km =
   ecef_to_sez o_x_km o_y_km o_z_km x_km y_km z_km"
proof (cases "o_x_km\<^sup>2 \<le> float_max \<and> o_y_km\<^sup>2 \<le> float_max")
  case True
  then have "ecef_to_sez_fused o_x_km o_y_km o_z_km x_km y_km z_km =
    (let phi = atan2 o_z_km (sqrt (o_x_km\<^sup>2 + o_y_km\<^sup>2));
         lam = atan2 o_y_km o_x_km;
         dx = x_km - o_x_km;
         dy = y_km - o_y_km;
         dz = z_km - o_z_km
     in Inr (- sin phi * cos lam * dx - sin phi * sin lam * dy + cos phi * dz,
             - sin lam * dx + cos lam * dy,
             cos phi * cos lam * dx + cos phi * sin lam * dy + sin phi * dz))"
    by (simp add: ecef_to_sez_fused_def float_pow2_in_range math_sqrt_sum_squares Let_def)
  with True show ?thesis by (simp add: ecef_to_sez_exact)
next
  case False
  have "ecef_to_sez_fused o_x_km o_y_km o_z_km x_km y_km z_km = Inl OverflowError"
  proof (cases "o_x_km\<^sup>2 \<le> float_max")
    case True
    with False have "float_max < o_y_km\<^sup>2" by simp
    with True show ?thesis
      by (simp add: ecef_to_sez_fused_def float_pow2_in_range float_pow2_overflow)
  next
    case False
    then show ?thesis
      by (simp add: ecef_to_sez_fused_def float_pow2_overflow not_le)
  qed
  then show ?thesis by (simp add: ecef_to_sez_raises [OF False])
qed

subsection \<open>The sine and cosine of \<^verbatim>\<open>atan2\<close>\<close>




subsection \<open>The rotation keeps lengths\<close>






subsection \<open>A target straight above the observer\<close>




end
